theory Spec2Isabelle
  imports Main "HOL-Library.Word"
begin

section \<open>The Google OAuth2 provider of the auth backend\<close>

text \<open>
  A shallow embedding of \<^verbatim>\<open>plugins/auth-backend/src/providers/google/provider.ts\<close>:
  the four route handlers of \<^verbatim>\<open>GoogleAuthProvider\<close> (\<^verbatim>\<open>start\<close>,
  \<^verbatim>\<open>frameHandler\<close>, \<^verbatim>\<open>logout\<close>, \<^verbatim>\<open>refresh\<close>) and the verify function of
  \<^verbatim>\<open>strategy\<close>. A handler is a function from the request and the state of the
  exchange (the response under construction and a trace of what the handler read and
  called) to an outcome: it returned, or it threw, and in both cases the state it left.
  The collaborators outside the file (the entropy source, passport, the refresh client,
  \<^verbatim>\<open>ensuresXRequestedWith\<close>) are parameters of the handlers.
\<close>

subsection \<open>JavaScript values\<close>

text \<open>
  The values a handler can meet in cookies, query parameters and callback arguments.
  Numbers are restricted to integers. An \<^verbatim>\<open>Error\<close> object is \<open>JError\<close> with its
  message; an object is the list of its own properties.
\<close>

datatype jsval =
    JUndefined
  | JNull
  | JBool bool
  | JNum int
  | JStr string
  | JArr "jsval list"
  | JObj "(string \<times> jsval) list"
  | JError string

text \<open>What \<^verbatim>\<open>if (v)\<close> and \<^verbatim>\<open>!v\<close> test.\<close>

fun truthy :: "jsval \<Rightarrow> bool" where
  "truthy JUndefined = False"
| "truthy JNull = False"
| "truthy (JBool b) = b"
| "truthy (JNum n) = (n \<noteq> 0)"
| "truthy (JStr s) = (s \<noteq> [])"
| "truthy (JArr xs) = True"
| "truthy (JObj kvs) = True"
| "truthy (JError m) = True"

text \<open>
  \<^verbatim>\<open>a === b\<close> for two values that come from different places (here a parsed cookie
  and a parsed query parameter): primitives are compared by value, and two arrays or
  objects are never the same object.
\<close>

fun strict_eq :: "jsval \<Rightarrow> jsval \<Rightarrow> bool" where
  "strict_eq JUndefined JUndefined = True"
| "strict_eq JNull JNull = True"
| "strict_eq (JBool a) (JBool b) = (a = b)"
| "strict_eq (JNum a) (JNum b) = (a = b)"
| "strict_eq (JStr a) (JStr b) = (a = b)"
| "strict_eq a b = False"

fun show_nat :: "nat \<Rightarrow> string" where
  "show_nat n =
     (if n < 10 then [''0123456789'' ! n]
      else show_nat (n div 10) @ [''0123456789'' ! (n mod 10)])"

definition show_int :: "int \<Rightarrow> string" where
  "show_int i = (if i < 0 then CHR ''-'' # show_nat (nat (- i)) else show_nat (nat i))"

fun join_comma :: "string list \<Rightarrow> string" where
  "join_comma [] = []"
| "join_comma [s] = s"
| "join_comma (s # t # ss) = s @ CHR '','' # join_comma (t # ss)"

text \<open>
  \<^verbatim>\<open>v.toString()\<close> and the conversion of a template literal \<^verbatim>\<open>`${v}`\<close>. An array
  joins its elements with commas, \<^verbatim>\<open>null\<close> and \<^verbatim>\<open>undefined\<close> elements as the empty
  string.
\<close>

fun js_toString :: "jsval \<Rightarrow> string" where
  "js_toString JUndefined = ''undefined''"
| "js_toString JNull = ''null''"
| "js_toString (JBool b) = (if b then ''true'' else ''false'')"
| "js_toString (JNum n) = show_int n"
| "js_toString (JStr s) = s"
| "js_toString (JArr xs) =
     join_comma (map (\<lambda>x. if x = JUndefined \<or> x = JNull then [] else js_toString x) xs)"
| "js_toString (JObj kvs) = ''[object Object]''"
| "js_toString (JError m) = (if m = [] then ''Error'' else ''Error: '' @ m)"

datatype exn = InputError string | TypeError

text \<open>
  \<^verbatim>\<open>v.name\<close> for a property name that no built-in prototype defines: reading a
  property of \<^verbatim>\<open>undefined\<close> or \<^verbatim>\<open>null\<close> throws, an object gives its own property or
  \<^verbatim>\<open>undefined\<close>, every other value gives \<^verbatim>\<open>undefined\<close>.
\<close>

fun js_get :: "jsval \<Rightarrow> string \<Rightarrow> exn + jsval" where
  "js_get JUndefined name = Inl TypeError"
| "js_get JNull name = Inl TypeError"
| "js_get (JObj kvs) name = Inr (case map_of kvs name of None \<Rightarrow> JUndefined | Some v \<Rightarrow> v)"
| "js_get v name = Inr JUndefined"

text \<open>\<^verbatim>\<open>delete v.name\<close>: removes the own property of an object, no effect elsewhere.\<close>

fun js_delete :: "jsval \<Rightarrow> string \<Rightarrow> jsval" where
  "js_delete (JObj kvs) name = JObj (filter (\<lambda>kv. fst kv \<noteq> name) kvs)"
| "js_delete v name = v"

text \<open>Whether a value is an object with an own property of that name.\<close>

fun has_field :: "jsval \<Rightarrow> string \<Rightarrow> bool" where
  "has_field (JObj kvs) name = (name \<in> set (map fst kvs))"
| "has_field v name = False"

subsection \<open>Random bytes and base64\<close>

text \<open>
  \<^verbatim>\<open>crypto.randomBytes(n)\<close> takes \<open>n\<close> bytes from the entropy source, which is a
  parameter; \<^verbatim>\<open>buf.toString('base64')\<close> is the standard encoding with padding.
\<close>

definition randomBytes :: "(nat \<Rightarrow> 8 word) \<Rightarrow> nat \<Rightarrow> 8 word list" where
  "randomBytes entropy n = map entropy [0..<n]"

definition b64_alphabet :: string where
  "b64_alphabet = ''ABCDEFGHIJKLMNOPQRSTUVWXYZabcdefghijklmnopqrstuvwxyz0123456789+/''"

definition b64_char :: "nat \<Rightarrow> char" where
  "b64_char n = b64_alphabet ! (n mod 64)"

fun base64_enc :: "nat list \<Rightarrow> string" where
  "base64_enc [] = []"
| "base64_enc [a] =
     [b64_char (a div 4), b64_char ((a mod 4) * 16), CHR ''='', CHR ''='']"
| "base64_enc [a, b] =
     [b64_char (a div 4), b64_char ((a mod 4) * 16 + b div 16),
      b64_char ((b mod 16) * 4), CHR ''='']"
| "base64_enc (a # b # c # rest) =
     [b64_char (a div 4), b64_char ((a mod 4) * 16 + b div 16),
      b64_char ((b mod 16) * 4 + c div 64), b64_char (c mod 64)] @ base64_enc rest"

definition toString_base64 :: "8 word list \<Rightarrow> string" where
  "toString_base64 buf = base64_enc (map unat buf)"

subsection \<open>Requests, responses and the trace\<close>

record AuthProviderConfig =
  provider :: string
  options :: jsval

record request =
  cookies :: "string \<rightharpoonup> jsval"
  query :: "string \<rightharpoonup> jsval"
  headers :: "string \<rightharpoonup> string"

record CookieOptions =
  maxAge :: nat
  secure :: bool
  sameSite :: string
  domain :: string
  path :: string
  httpOnly :: bool

text \<open>The options \<^verbatim>\<open>start\<close> passes to \<^verbatim>\<open>passport.authenticate\<close>.\<close>

record AuthenticateOptions =
  scope :: string
  accessType :: string
  prompt :: string
  state :: string

text \<open>The message \<^verbatim>\<open>frameHandler\<close> hands to \<^verbatim>\<open>postMessageResponse\<close>.\<close>

record WebMessageResponse =
  type :: string
  payload :: "jsval option"
  error :: "jsval option"

datatype body =
    Text string
  | Json jsval
  | PostMessage WebMessageResponse

text \<open>
  What a handler does besides writing the response, in the order it does it: the reads
  of request cookies and the calls to the collaborators.
\<close>

datatype event =
    RandomBytes nat
  | CookieRead string
  | PassportAuthenticate string AuthenticateOptions
  | PassportAuthenticateCallback string
  | RequestNewAccessToken string jsval jsval

text \<open>
  The state of one exchange: the status of the response (200 until \<^verbatim>\<open>res.status\<close>
  changes it), the cookies set on it by \<^verbatim>\<open>res.cookie\<close> in order, the body sent, and
  the trace.
\<close>

record exchange =
  statusCode :: nat
  setCookies :: "(string \<times> jsval \<times> CookieOptions) list"
  sent :: "body option"
  trace :: "event list"

definition fresh :: exchange where
  "fresh = \<lparr>statusCode = 200, setCookies = [], sent = None, trace = []\<rparr>"

datatype outcome = Done exchange | Thrown exn exchange

fun final :: "outcome \<Rightarrow> exchange" where
  "final (Done s) = s"
| "final (Thrown e s) = s"

definition res_status :: "nat \<Rightarrow> exchange \<Rightarrow> exchange" where
  "res_status n s = s\<lparr>statusCode := n\<rparr>"

definition res_send :: "body \<Rightarrow> exchange \<Rightarrow> exchange" where
  "res_send b s = s\<lparr>sent := Some b\<rparr>"

definition res_cookie :: "string \<Rightarrow> jsval \<Rightarrow> CookieOptions \<Rightarrow> exchange \<Rightarrow> exchange" where
  "res_cookie name val opts s = s\<lparr>setCookies := setCookies s @ [(name, val, opts)]\<rparr>"

definition record_event :: "event \<Rightarrow> exchange \<Rightarrow> exchange" where
  "record_event e s = s\<lparr>trace := trace s @ [e]\<rparr>"

text \<open>\<^verbatim>\<open>req.cookies[name]\<close> and \<^verbatim>\<open>req.query.name\<close>: an absent entry reads as \<^verbatim>\<open>undefined\<close>.\<close>

definition req_cookie :: "request \<Rightarrow> string \<Rightarrow> jsval" where
  "req_cookie req name = (case cookies req name of None \<Rightarrow> JUndefined | Some v \<Rightarrow> v)"

definition req_query :: "request \<Rightarrow> string \<Rightarrow> jsval" where
  "req_query req name = (case query req name of None \<Rightarrow> JUndefined | Some v \<Rightarrow> v)"

text \<open>
  Modelled from the spec: \<^verbatim>\<open>postMessageResponse\<close> of \<^verbatim>\<open>utils\<close>, which is not among
  the sources. It answers with a page that posts the given message to the opener of the
  window; the model records the message as the body sent.
\<close>

definition postMessageResponse :: "WebMessageResponse \<Rightarrow> exchange \<Rightarrow> exchange" where
  "postMessageResponse msg s = res_send (PostMessage msg) s"

subsection \<open>The handlers\<close>

definition THOUSAND_DAYS_MS :: nat where
  "THOUSAND_DAYS_MS = 1000 * 24 * 60 * 60 * 1000"

definition TEN_MINUTES_MS :: nat where
  "TEN_MINUTES_MS = 600 * 1000"

text \<open>\<^verbatim>\<open>req.query.scope?.toString() ?? ''\<close>.\<close>

definition scope_of :: "request \<Rightarrow> string" where
  "scope_of req =
     (let v = req_query req ''scope''
      in if v = JUndefined \<or> v = JNull then [] else js_toString v)"

text \<open>
  \<^verbatim>\<open>start\<close>: the nonce cookie is set first, the scope is checked after it, and
  \<^verbatim>\<open>passport.authenticate\<close> is called with the nonce as \<^verbatim>\<open>state\<close>. What passport
  then writes to the response (the redirect) is outside the file.
\<close>

definition start :: "AuthProviderConfig \<Rightarrow> (nat \<Rightarrow> 8 word) \<Rightarrow> request \<Rightarrow> exchange \<Rightarrow> outcome" where
  "start cfg entropy req s =
     (let nonce = toString_base64 (randomBytes entropy 16);
          s1 = record_event (RandomBytes 16) s;
          options = \<lparr>maxAge = TEN_MINUTES_MS, secure = False, sameSite = ''none'',
                     domain = ''localhost'', path = ''/auth/'' @ provider cfg @ ''/handler'',
                     httpOnly = True\<rparr>;
          s2 = res_cookie (provider cfg @ ''-nonce'') (JStr nonce) options s1;
          scope = scope_of req
      in if scope = [] then Thrown (InputError ''missing scope parameter'') s2
         else Done (record_event
                (PassportAuthenticate ''google''
                   \<lparr>scope = scope, accessType = ''offline'', prompt = ''consent'',
                    state = nonce\<rparr>) s2))"

text \<open>The callback \<^verbatim>\<open>(err, user) => ...\<close> that \<^verbatim>\<open>frameHandler\<close> gives to passport.\<close>

definition frameHandler_callback :: "AuthProviderConfig \<Rightarrow> jsval \<Rightarrow> jsval \<Rightarrow> exchange \<Rightarrow> outcome" where
  "frameHandler_callback cfg err user s =
     (if truthy err then
        Done (postMessageResponse
          \<lparr>type = ''auth-result'', payload = None,
           error = Some (JError (''Google auth failed, '' @ js_toString err))\<rparr> s)
      else
        (case js_get user ''refreshToken'' of
           Inl e \<Rightarrow> Thrown e s
         | Inr refreshToken \<Rightarrow>
             if \<not> truthy refreshToken then
               Done (postMessageResponse
                 \<lparr>type = ''auth-result'', payload = None,
                  error = Some (JError ''Missing refresh token'')\<rparr> s)
             else
               (let user' = js_delete user ''refreshToken'';
                    options = \<lparr>maxAge = THOUSAND_DAYS_MS, secure = False, sameSite = ''none'',
                               domain = ''localhost'', path = ''/auth/'' @ provider cfg,
                               httpOnly = True\<rparr>;
                    s1 = res_cookie (provider cfg @ ''-refresh-token'') refreshToken options s
                in Done (postMessageResponse
                     \<lparr>type = ''auth-result'', payload = Some user', error = None\<rparr> s1))))"

text \<open>
  \<^verbatim>\<open>frameHandler\<close>. The parameter \<open>authenticate\<close> stands for
  \<^verbatim>\<open>passport.authenticate('google', callback)\<close>: it gives the arguments
  \<open>(err, user)\<close> with which passport invokes the callback after the token exchange, or
  \<open>None\<close> when passport answers the request itself and never invokes it.
\<close>

definition frameHandler ::
  "AuthProviderConfig \<Rightarrow> (request \<Rightarrow> (jsval \<times> jsval) option) \<Rightarrow> request \<Rightarrow> exchange \<Rightarrow> outcome" where
  "frameHandler cfg authenticate req s =
     (let s1 = record_event (CookieRead (provider cfg @ ''-nonce'')) s;
          cookieNonce = req_cookie req (provider cfg @ ''-nonce'');
          stateNonce = req_query req ''state''
      in if \<not> truthy cookieNonce \<or> \<not> truthy stateNonce then
           Done (res_send (Text ''Missing nonce'') (res_status 401 s1))
         else if \<not> strict_eq cookieNonce stateNonce then
           Done (res_send (Text ''Invalid nonce'') (res_status 401 s1))
         else
           (let s2 = record_event (PassportAuthenticateCallback ''google'') s1
            in case authenticate req of
                 None \<Rightarrow> Done s2
               | Some (err, user) \<Rightarrow> frameHandler_callback cfg err user s2))"

text \<open>
  \<^verbatim>\<open>logout\<close>. The parameter \<open>ensuresXRequestedWith\<close> is the function of that name
  of \<^verbatim>\<open>utils\<close>, which is not among the sources.
\<close>

definition logout :: "AuthProviderConfig \<Rightarrow> (request \<Rightarrow> bool) \<Rightarrow> request \<Rightarrow> exchange \<Rightarrow> outcome" where
  "logout cfg ensuresXRequestedWith req s =
     (if \<not> ensuresXRequestedWith req then
        Done (res_send (Text ''Invalid X-Requested-With header'') (res_status 401 s))
      else
        (let options = \<lparr>maxAge = 0, secure = False, sameSite = ''none'',
                        domain = ''localhost'', path = ''/auth/'' @ provider cfg,
                        httpOnly = True\<rparr>;
             s1 = res_cookie (provider cfg @ ''-refresh-token'') (JStr []) options s
         in Done (res_send (Text ''logout!'') s1)))"

text \<open>The callback \<^verbatim>\<open>(err, accessToken, _refreshToken, params) => ...\<close> of \<^verbatim>\<open>refresh\<close>.\<close>

definition refresh_callback :: "jsval \<Rightarrow> jsval \<Rightarrow> jsval \<Rightarrow> jsval \<Rightarrow> exchange \<Rightarrow> outcome" where
  "refresh_callback err accessToken ignoredRefreshToken params s =
     (if truthy err \<or> \<not> truthy accessToken then
        Done (res_send (Text ''Failed to refresh access token'') (res_status 401 s))
      else
        (case js_get params ''id_token'' of
           Inl e \<Rightarrow> Thrown e s
         | Inr id_token \<Rightarrow>
             (case js_get params ''expires_in'' of
                Inl e \<Rightarrow> Thrown e s
              | Inr expires_in \<Rightarrow>
                  (case js_get params ''scope'' of
                     Inl e \<Rightarrow> Thrown e s
                   | Inr params_scope \<Rightarrow>
                       Done (res_send (Json (JObj
                         [(''accessToken'', accessToken),
                          (''idToken'', id_token),
                          (''expiresInSeconds'', expires_in),
                          (''scope'', params_scope)])) s)))))"

text \<open>
  \<^verbatim>\<open>refresh\<close>. The parameter \<open>requestNewAccessToken\<close> stands for the function of
  that name of the refresh client: from the strategy name, the refresh token and the
  request parameters it gives the arguments \<open>(err, accessToken, refreshToken, params)\<close>
  with which the client invokes the callback.
\<close>

definition refresh ::
  "AuthProviderConfig \<Rightarrow> (request \<Rightarrow> bool) \<Rightarrow>
   (string \<Rightarrow> jsval \<Rightarrow> jsval \<Rightarrow> jsval \<times> jsval \<times> jsval \<times> jsval) \<Rightarrow>
   request \<Rightarrow> exchange \<Rightarrow> outcome" where
  "refresh cfg ensuresXRequestedWith requestNewAccessToken req s =
     (if \<not> ensuresXRequestedWith req then
        Done (res_send (Text ''Invalid X-Requested-With header'') (res_status 401 s))
      else
        (let s1 = record_event (CookieRead (provider cfg @ ''-refresh-token'')) s;
             refreshToken = req_cookie req (provider cfg @ ''-refresh-token'')
         in if \<not> truthy refreshToken then
              Done (res_send (Text ''Missing session cookie'') (res_status 401 s1))
            else
              (let scope = scope_of req;
                   refreshTokenRequestParams =
                     (if scope \<noteq> [] then JObj [(''scope'', JStr scope)] else JObj []);
                   s2 = record_event
                          (RequestNewAccessToken (provider cfg) refreshToken
                             refreshTokenRequestParams) s1
               in case requestNewAccessToken (provider cfg) refreshToken
                         refreshTokenRequestParams of
                    (err, accessToken, ignoredRefreshToken, params) \<Rightarrow>
                      refresh_callback err accessToken ignoredRefreshToken params s2)))"

text \<open>
  The verify function that \<^verbatim>\<open>strategy\<close> gives to the Google strategy: the session
  result it passes to \<^verbatim>\<open>done\<close>.
\<close>

definition strategy_verify :: "jsval \<Rightarrow> jsval \<Rightarrow> jsval \<Rightarrow> jsval \<Rightarrow> exn + jsval" where
  "strategy_verify accessToken refreshToken params profile =
     (case js_get params ''id_token'' of
        Inl e \<Rightarrow> Inl e
      | Inr id_token \<Rightarrow>
          (case js_get params ''scope'' of
             Inl e \<Rightarrow> Inl e
           | Inr params_scope \<Rightarrow>
               (case js_get params ''expires_in'' of
                  Inl e \<Rightarrow> Inl e
                | Inr expires_in \<Rightarrow>
                    Inr (JObj
                      [(''profile'', profile),
                       (''idToken'', id_token),
                       (''accessToken'', accessToken),
                       (''refreshToken'', refreshToken),
                       (''scope'', params_scope),
                       (''expiresInSeconds'', expires_in)]))))"

subsection \<open>Collaborators and requests used in the examples\<close>

text \<open>
  Modelled from the spec: \<^verbatim>\<open>ensuresXRequestedWith\<close> of \<^verbatim>\<open>utils\<close>, which is not
  among the sources. The request passes when its \<^verbatim>\<open>X-Requested-With\<close> header is
  present and has the expected value, which is a parameter.
\<close>

definition ensuresXRequestedWith :: "string \<Rightarrow> request \<Rightarrow> bool" where
  "ensuresXRequestedWith expected req = (headers req ''X-Requested-With'' = Some expected)"

text \<open>An entropy source whose i-th byte is i.\<close>

definition counting_entropy :: "nat \<Rightarrow> 8 word" where
  "counting_entropy i = of_nat i"

text \<open>Passport invoking the callback of \<^verbatim>\<open>frameHandler\<close> with the given arguments.\<close>

definition passport_invokes :: "jsval \<Rightarrow> jsval \<Rightarrow> request \<Rightarrow> (jsval \<times> jsval) option" where
  "passport_invokes err user req = Some (err, user)"

text \<open>The refresh client invoking the callback of \<^verbatim>\<open>refresh\<close> with the given arguments.\<close>

definition client_invokes ::
  "jsval \<Rightarrow> jsval \<Rightarrow> jsval \<Rightarrow> jsval \<Rightarrow> string \<Rightarrow> jsval \<Rightarrow> jsval \<Rightarrow> jsval \<times> jsval \<times> jsval \<times> jsval" where
  "client_invokes err accessToken refreshToken params name token requestParams =
     (err, accessToken, refreshToken, params)"

text \<open>The request with the given cookies, query parameters and headers.\<close>

definition request_with ::
  "(string \<times> jsval) list \<Rightarrow> (string \<times> jsval) list \<Rightarrow> (string \<times> string) list \<Rightarrow> request" where
  "request_with cs qs hs = \<lparr>cookies = map_of cs, query = map_of qs, headers = map_of hs\<rparr>"

definition demo :: AuthProviderConfig where
  "demo = \<lparr>provider = ''demo'', options = JObj []\<rparr>"

text \<open>A session result as \<^verbatim>\<open>strategy\<close> builds it, with the given refresh token.\<close>

definition demo_session :: "jsval \<Rightarrow> jsval" where
  "demo_session refreshToken =
     JObj [(''profile'', JObj [(''displayName'', JStr ''Ada'')]),
           (''idToken'', JStr ''id1''),
           (''accessToken'', JStr ''at1''),
           (''refreshToken'', refreshToken),
           (''scope'', JStr ''openid profile''),
           (''expiresInSeconds'', JNum 3599)]"

section \<open>Properties\<close>

subsection \<open>Values\<close>

lemmas exchange_ops =
  res_status_def res_send_def res_cookie_def record_event_def postMessageResponse_def

lemma js_delete_no_field: "\<not> has_field (js_delete v name) name"
  by (cases v) auto

lemma map_of_filter_other:
  "k \<noteq> name \<Longrightarrow> map_of (filter (\<lambda>kv. fst kv \<noteq> name) kvs) k = map_of kvs k"
  by (induction kvs) auto

lemma js_delete_keeps: "k \<noteq> name \<Longrightarrow> js_get (js_delete v name) k = js_get v k"
  by (cases v) (simp_all add: map_of_filter_other)

lemma js_get_throws_iff:
  "js_get v name = Inl e \<longleftrightarrow> (v = JUndefined \<or> v = JNull) \<and> e = TypeError"
  by (cases v) auto

lemma strict_eq_truthy: "strict_eq a b \<Longrightarrow> truthy a \<Longrightarrow> truthy b"
  by (cases a; cases b) auto

lemma thousand_days: "THOUSAND_DAYS_MS = 86400000000"
  by (simp add: THOUSAND_DAYS_MS_def)

lemma ten_minutes: "TEN_MINUTES_MS = 600000"
  by (simp add: TEN_MINUTES_MS_def)

lemma length_randomBytes: "length (randomBytes entropy n) = n"
  by (simp add: randomBytes_def)

lemma nth_randomBytes: "i < n \<Longrightarrow> randomBytes entropy n ! i = entropy i"
  by (simp add: randomBytes_def)

text \<open>The test vectors of RFC 4648, section 10.\<close>

lemma base64_enc_rfc4648:
  "base64_enc [] = []"
  "base64_enc [102] = ''Zg==''"
  "base64_enc [102, 111] = ''Zm8=''"
  "base64_enc [102, 111, 111] = ''Zm9v''"
  "base64_enc [102, 111, 111, 98] = ''Zm9vYg==''"
  "base64_enc [102, 111, 111, 98, 97] = ''Zm9vYmE=''"
  "base64_enc [102, 111, 111, 98, 97, 114] = ''Zm9vYmFy''"
  by (simp_all add: b64_char_def b64_alphabet_def)

lemma length_base64_enc: "length (base64_enc bs) = 4 * ((length bs + 2) div 3)"
proof (induction bs rule: base64_enc.induct)
  case (4 a b c rest)
  have "(length rest + 5) div 3 = Suc ((length rest + 2) div 3)"
    by arith
  with 4 show ?case
    by (simp add: add.commute)
qed simp_all

lemma length_nonce: "length (toString_base64 (randomBytes entropy 16)) = 24"
  by (simp add: toString_base64_def length_base64_enc length_randomBytes)

lemma counting_nonce:
  "toString_base64 (randomBytes counting_entropy 16) = ''AAECAwQFBgcICQoLDA0ODw==''"
  by (simp add: toString_base64_def randomBytes_def counting_entropy_def b64_char_def
        b64_alphabet_def upt_rec)

subsection \<open>The paths of the handlers\<close>

lemma start_throws:
  assumes "scope_of req = []"
  shows "start cfg entropy req s =
    Thrown (InputError ''missing scope parameter'')
      (s\<lparr>setCookies := setCookies s @
           [(provider cfg @ ''-nonce'', JStr (toString_base64 (randomBytes entropy 16)),
             \<lparr>maxAge = 600000, secure = False, sameSite = ''none'', domain = ''localhost'',
              path = ''/auth/'' @ provider cfg @ ''/handler'', httpOnly = True\<rparr>)],
         trace := trace s @ [RandomBytes 16]\<rparr>)"
  using assms by (simp add: start_def exchange_ops Let_def ten_minutes)

lemma start_done:
  assumes "scope_of req \<noteq> []"
  shows "start cfg entropy req s =
    Done (s\<lparr>setCookies := setCookies s @
           [(provider cfg @ ''-nonce'', JStr (toString_base64 (randomBytes entropy 16)),
             \<lparr>maxAge = 600000, secure = False, sameSite = ''none'', domain = ''localhost'',
              path = ''/auth/'' @ provider cfg @ ''/handler'', httpOnly = True\<rparr>)],
         trace := trace s @
           [RandomBytes 16,
            PassportAuthenticate ''google''
              \<lparr>scope = scope_of req, accessType = ''offline'', prompt = ''consent'',
               state = toString_base64 (randomBytes entropy 16)\<rparr>]\<rparr>)"
  using assms by (simp add: start_def exchange_ops Let_def ten_minutes)

lemma frameHandler_missing:
  assumes "\<not> truthy (req_cookie req (provider cfg @ ''-nonce'')) \<or> \<not> truthy (req_query req ''state'')"
  shows "frameHandler cfg authenticate req s =
    Done (s\<lparr>statusCode := 401, sent := Some (Text ''Missing nonce''),
           trace := trace s @ [CookieRead (provider cfg @ ''-nonce'')]\<rparr>)"
  using assms by (auto simp add: frameHandler_def exchange_ops)

lemma frameHandler_invalid:
  assumes "truthy (req_cookie req (provider cfg @ ''-nonce''))"
      and "truthy (req_query req ''state'')"
      and "\<not> strict_eq (req_cookie req (provider cfg @ ''-nonce'')) (req_query req ''state'')"
  shows "frameHandler cfg authenticate req s =
    Done (s\<lparr>statusCode := 401, sent := Some (Text ''Invalid nonce''),
           trace := trace s @ [CookieRead (provider cfg @ ''-nonce'')]\<rparr>)"
  using assms by (simp add: frameHandler_def exchange_ops)

lemma frameHandler_exchange:
  assumes "truthy (req_cookie req (provider cfg @ ''-nonce''))"
      and "strict_eq (req_cookie req (provider cfg @ ''-nonce'')) (req_query req ''state'')"
  shows "frameHandler cfg authenticate req s =
    (case authenticate req of
       None \<Rightarrow>
         Done (s\<lparr>trace := trace s @
           [CookieRead (provider cfg @ ''-nonce''), PassportAuthenticateCallback ''google'']\<rparr>)
     | Some (err, user) \<Rightarrow>
         frameHandler_callback cfg err user
           (s\<lparr>trace := trace s @
             [CookieRead (provider cfg @ ''-nonce''), PassportAuthenticateCallback ''google'']\<rparr>))"
proof -
  from assms have "truthy (req_query req ''state'')"
    by (rule strict_eq_truthy[rotated])
  with assms show ?thesis
    by (simp add: frameHandler_def exchange_ops split: option.split)
qed

lemma callback_no_token:
  assumes "\<not> truthy err"
      and "js_get user ''refreshToken'' = Inr refreshToken"
      and "\<not> truthy refreshToken"
  shows "frameHandler_callback cfg err user s =
    Done (s\<lparr>sent := Some (PostMessage
      \<lparr>type = ''auth-result'', payload = None,
       error = Some (JError ''Missing refresh token'')\<rparr>)\<rparr>)"
  using assms by (simp add: frameHandler_callback_def exchange_ops)

lemma callback_success:
  assumes "\<not> truthy err"
      and "js_get user ''refreshToken'' = Inr refreshToken"
      and "truthy refreshToken"
  shows "frameHandler_callback cfg err user s =
    Done (s\<lparr>setCookies := setCookies s @
            [(provider cfg @ ''-refresh-token'', refreshToken,
              \<lparr>maxAge = 86400000000, secure = False, sameSite = ''none'',
               domain = ''localhost'', path = ''/auth/'' @ provider cfg, httpOnly = True\<rparr>)],
          sent := Some (PostMessage
            \<lparr>type = ''auth-result'', payload = Some (js_delete user ''refreshToken''),
             error = None\<rparr>)\<rparr>)"
  using assms by (simp add: frameHandler_callback_def exchange_ops thousand_days)

lemma callback_sets_cookie_only_with_token:
  assumes "setCookies (final (frameHandler_callback cfg err user s)) \<noteq> setCookies s"
  shows "\<not> truthy err \<and>
    (\<exists>refreshToken. js_get user ''refreshToken'' = Inr refreshToken \<and> truthy refreshToken)"
  using assms
  by (auto simp add: frameHandler_callback_def exchange_ops Let_def split: if_splits sum.splits)

lemma logout_rejected:
  assumes "\<not> ensures req"
  shows "logout cfg ensures req s =
    Done (s\<lparr>statusCode := 401, sent := Some (Text ''Invalid X-Requested-With header'')\<rparr>)"
  using assms by (simp add: logout_def exchange_ops)

lemma logout_done:
  assumes "ensures req"
  shows "logout cfg ensures req s =
    Done (s\<lparr>setCookies := setCookies s @
            [(provider cfg @ ''-refresh-token'', JStr [],
              \<lparr>maxAge = 0, secure = False, sameSite = ''none'', domain = ''localhost'',
               path = ''/auth/'' @ provider cfg, httpOnly = True\<rparr>)],
          sent := Some (Text ''logout!'')\<rparr>)"
  using assms by (simp add: logout_def exchange_ops)

lemma refresh_rejected:
  assumes "\<not> ensures req"
  shows "refresh cfg ensures client req s =
    Done (s\<lparr>statusCode := 401, sent := Some (Text ''Invalid X-Requested-With header'')\<rparr>)"
  using assms by (simp add: refresh_def exchange_ops)

lemma refresh_no_cookie:
  assumes "ensures req"
      and "\<not> truthy (req_cookie req (provider cfg @ ''-refresh-token''))"
  shows "refresh cfg ensures client req s =
    Done (s\<lparr>statusCode := 401, sent := Some (Text ''Missing session cookie''),
           trace := trace s @ [CookieRead (provider cfg @ ''-refresh-token'')]\<rparr>)"
  using assms by (simp add: refresh_def exchange_ops)

lemma refresh_grant:
  assumes "ensures req"
      and "truthy (req_cookie req (provider cfg @ ''-refresh-token''))"
      and "client (provider cfg) (req_cookie req (provider cfg @ ''-refresh-token''))
             (if scope_of req \<noteq> [] then JObj [(''scope'', JStr (scope_of req))] else JObj [])
           = (err, accessToken, newRefreshToken, params)"
  shows "refresh cfg ensures client req s =
    refresh_callback err accessToken newRefreshToken params
      (s\<lparr>trace := trace s @
         [CookieRead (provider cfg @ ''-refresh-token''),
          RequestNewAccessToken (provider cfg) (req_cookie req (provider cfg @ ''-refresh-token''))
            (if scope_of req \<noteq> [] then JObj [(''scope'', JStr (scope_of req))] else JObj [])]\<rparr>)"
  using assms by (simp add: refresh_def exchange_ops Let_def)

lemma refresh_callback_failed:
  assumes "truthy err \<or> \<not> truthy accessToken"
  shows "refresh_callback err accessToken newRefreshToken params s =
    Done (s\<lparr>statusCode := 401, sent := Some (Text ''Failed to refresh access token'')\<rparr>)"
  using assms by (auto simp add: refresh_callback_def exchange_ops)

lemma refresh_callback_ok:
  assumes "\<not> truthy err" and "truthy accessToken"
      and "js_get params ''id_token'' = Inr id_token"
      and "js_get params ''expires_in'' = Inr expires_in"
      and "js_get params ''scope'' = Inr params_scope"
  shows "refresh_callback err accessToken newRefreshToken params s =
    Done (s\<lparr>sent := Some (Json (JObj
      [(''accessToken'', accessToken), (''idToken'', id_token),
       (''expiresInSeconds'', expires_in), (''scope'', params_scope)]))\<rparr>)"
  using assms by (simp add: refresh_callback_def exchange_ops)

lemma demo_session_verify:
  "strategy_verify (JStr ''at1'') refreshToken
     (JObj [(''id_token'', JStr ''id1''), (''scope'', JStr ''openid profile''),
            (''expires_in'', JNum 3599)])
     (JObj [(''displayName'', JStr ''Ada'')]) = Inr (demo_session refreshToken)"
  by (simp add: strategy_verify_def demo_session_def)

subsection \<open>The callback\<close>

text \<open>
  C1. When the nonce check passes, passport invokes the callback without an error and
  the session result has a refresh token (a truthy \<^verbatim>\<open>refreshToken\<close>), then
  \<^verbatim>\<open>frameHandler\<close> sets the refresh-token cookie with that very token and posts the
  message whose payload is the session result without its \<^verbatim>\<open>refreshToken\<close> field:
  the payload has no such field, and every other property reads as before.
\<close>

theorem callback_payload_without_refreshToken:
  assumes "truthy (req_cookie req (provider cfg @ ''-nonce''))"
      and "strict_eq (req_cookie req (provider cfg @ ''-nonce'')) (req_query req ''state'')"
      and "authenticate req = Some (err, user)"
      and "\<not> truthy err"
      and "js_get user ''refreshToken'' = Inr refreshToken"
      and "truthy refreshToken"
  shows "frameHandler cfg authenticate req s =
    Done (s\<lparr>setCookies := setCookies s @
            [(provider cfg @ ''-refresh-token'', refreshToken,
              \<lparr>maxAge = 86400000000, secure = False, sameSite = ''none'',
               domain = ''localhost'', path = ''/auth/'' @ provider cfg, httpOnly = True\<rparr>)],
          sent := Some (PostMessage
            \<lparr>type = ''auth-result'', payload = Some (js_delete user ''refreshToken''),
             error = None\<rparr>),
          trace := trace s @
            [CookieRead (provider cfg @ ''-nonce''), PassportAuthenticateCallback ''google'']\<rparr>)
    \<and> \<not> has_field (js_delete user ''refreshToken'') ''refreshToken''
    \<and> (\<forall>k. k \<noteq> ''refreshToken'' \<longrightarrow>
          js_get (js_delete user ''refreshToken'') k = js_get user k)"
proof -
  have "frameHandler cfg authenticate req s =
      frameHandler_callback cfg err user
        (s\<lparr>trace := trace s @
            [CookieRead (provider cfg @ ''-nonce''), PassportAuthenticateCallback ''google'']\<rparr>)"
    using assms(1-3) by (simp add: frameHandler_exchange)
  then show ?thesis
    using assms(4-6) by (simp add: callback_success js_delete_no_field js_delete_keeps)
qed

text \<open>
  Witness of C1: the callback of provider \<open>demo\<close> with matching nonces and a session
  whose refresh token is \<open>rt1\<close>.
\<close>

theorem callback_payload_without_refreshToken_witness:
  "truthy (req_cookie (request_with [(''demo-nonce'', JStr ''bm9uY2U='')]
                         [(''state'', JStr ''bm9uY2U='')] []) ''demo-nonce'')
   \<and> js_get (demo_session (JStr ''rt1'')) ''refreshToken'' = Inr (JStr ''rt1'')
   \<and> frameHandler demo (passport_invokes JNull (demo_session (JStr ''rt1'')))
        (request_with [(''demo-nonce'', JStr ''bm9uY2U='')] [(''state'', JStr ''bm9uY2U='')] [])
        fresh =
      Done \<lparr>statusCode = 200,
            setCookies = [(''demo-refresh-token'', JStr ''rt1'',
              \<lparr>maxAge = 86400000000, secure = False, sameSite = ''none'',
               domain = ''localhost'', path = ''/auth/demo'', httpOnly = True\<rparr>)],
            sent = Some (PostMessage
              \<lparr>type = ''auth-result'',
               payload = Some (JObj [(''profile'', JObj [(''displayName'', JStr ''Ada'')]),
                                     (''idToken'', JStr ''id1''),
                                     (''accessToken'', JStr ''at1''),
                                     (''scope'', JStr ''openid profile''),
                                     (''expiresInSeconds'', JNum 3599)]),
               error = None\<rparr>),
            trace = [CookieRead ''demo-nonce'', PassportAuthenticateCallback ''google'']\<rparr>"
proof -
  let ?req = "request_with [(''demo-nonce'', JStr ''bm9uY2U='')] [(''state'', JStr ''bm9uY2U='')] []"
  let ?user = "demo_session (JStr ''rt1'')"
  have h1: "truthy (req_cookie ?req (provider demo @ ''-nonce''))"
    by (simp add: req_cookie_def request_with_def demo_def)
  have h2: "strict_eq (req_cookie ?req (provider demo @ ''-nonce'')) (req_query ?req ''state'')"
    by (simp add: req_cookie_def req_query_def request_with_def demo_def)
  have h3: "passport_invokes JNull ?user ?req = Some (JNull, ?user)"
    by (simp add: passport_invokes_def)
  have h4: "\<not> truthy JNull"
    by simp
  have h5: "js_get ?user ''refreshToken'' = Inr (JStr ''rt1'')"
    by (simp add: demo_session_def)
  have h6: "truthy (JStr ''rt1'')"
    by simp
  from callback_payload_without_refreshToken
         [where cfg = demo and req = ?req
            and authenticate = "passport_invokes JNull ?user" and err = JNull
            and user = ?user and refreshToken = "JStr ''rt1''" and s = fresh,
          OF h1 h2 h3 h4 h5 h6] h1 h5
  show ?thesis
    by (simp add: demo_def fresh_def demo_session_def)
qed

text \<open>
  C2. \<^verbatim>\<open>frameHandler\<close> sets a cookie only when passport invoked the callback without
  an error and with a session result whose \<^verbatim>\<open>refreshToken\<close> is truthy. When the
  nonce check passes and the callback is invoked without an error but the refresh token
  is missing (falsy), no cookie is set and the message posted carries the error
  \<open>Missing refresh token\<close>.
\<close>

theorem refresh_cookie_only_with_refreshToken:
  "(setCookies (final (frameHandler cfg authenticate req s)) \<noteq> setCookies s \<longrightarrow>
      (\<exists>err user refreshToken.
         authenticate req = Some (err, user) \<and> \<not> truthy err \<and>
         js_get user ''refreshToken'' = Inr refreshToken \<and> truthy refreshToken))
   \<and>
   (truthy (req_cookie req (provider cfg @ ''-nonce'')) \<and>
    strict_eq (req_cookie req (provider cfg @ ''-nonce'')) (req_query req ''state'') \<and>
    authenticate req = Some (err, user) \<and> \<not> truthy err \<and>
    js_get user ''refreshToken'' = Inr refreshToken \<and> \<not> truthy refreshToken \<longrightarrow>
      frameHandler cfg authenticate req s =
        Done (s\<lparr>sent := Some (PostMessage
                 \<lparr>type = ''auth-result'', payload = None,
                  error = Some (JError ''Missing refresh token'')\<rparr>),
               trace := trace s @
                 [CookieRead (provider cfg @ ''-nonce''),
                  PassportAuthenticateCallback ''google'']\<rparr>))"
proof (intro conjI impI)
  assume changed: "setCookies (final (frameHandler cfg authenticate req s)) \<noteq> setCookies s"
  show "\<exists>err user refreshToken.
         authenticate req = Some (err, user) \<and> \<not> truthy err \<and>
         js_get user ''refreshToken'' = Inr refreshToken \<and> truthy refreshToken"
  proof (cases "authenticate req")
    case None
    with changed show ?thesis
      by (simp add: frameHandler_def exchange_ops Let_def split: if_splits)
  next
    case (Some p)
    obtain e u where p: "p = (e, u)"
      by (cases p)
    let ?s2 = "s\<lparr>trace := trace s @
        [CookieRead (provider cfg @ ''-nonce''), PassportAuthenticateCallback ''google'']\<rparr>"
    from changed Some p
    have "setCookies (final (frameHandler_callback cfg e u ?s2)) \<noteq> setCookies ?s2"
      by (simp add: frameHandler_def exchange_ops Let_def split: if_splits)
    then have "\<not> truthy e \<and>
        (\<exists>refreshToken. js_get u ''refreshToken'' = Inr refreshToken \<and> truthy refreshToken)"
      by (rule callback_sets_cookie_only_with_token)
    with Some p show ?thesis
      by blast
  qed
next
  assume a: "truthy (req_cookie req (provider cfg @ ''-nonce'')) \<and>
    strict_eq (req_cookie req (provider cfg @ ''-nonce'')) (req_query req ''state'') \<and>
    authenticate req = Some (err, user) \<and> \<not> truthy err \<and>
    js_get user ''refreshToken'' = Inr refreshToken \<and> \<not> truthy refreshToken"
  then have "frameHandler cfg authenticate req s =
      frameHandler_callback cfg err user
        (s\<lparr>trace := trace s @
            [CookieRead (provider cfg @ ''-nonce''), PassportAuthenticateCallback ''google'']\<rparr>)"
    by (simp add: frameHandler_exchange)
  with a show "frameHandler cfg authenticate req s =
        Done (s\<lparr>sent := Some (PostMessage
                 \<lparr>type = ''auth-result'', payload = None,
                  error = Some (JError ''Missing refresh token'')\<rparr>),
               trace := trace s @
                 [CookieRead (provider cfg @ ''-nonce''),
                  PassportAuthenticateCallback ''google'']\<rparr>)"
    by (simp add: callback_no_token)
qed

text \<open>
  Witness of C2: with the refresh token \<open>rt2\<close> a cookie is set, and the theorem gives
  back that passport invoked the callback with a truthy refresh token; with the refresh
  token \<^verbatim>\<open>undefined\<close> no cookie is set and the error is posted.
\<close>

theorem refresh_cookie_only_with_refreshToken_witness:
  "setCookies (final (frameHandler demo (passport_invokes JNull (demo_session (JStr ''rt2'')))
       (request_with [(''demo-nonce'', JStr ''bm9uY2U='')] [(''state'', JStr ''bm9uY2U='')] [])
       fresh)) \<noteq> setCookies fresh
   \<and> (\<exists>err user refreshToken.
        passport_invokes JNull (demo_session (JStr ''rt2''))
          (request_with [(''demo-nonce'', JStr ''bm9uY2U='')] [(''state'', JStr ''bm9uY2U='')] [])
          = Some (err, user) \<and>
        \<not> truthy err \<and> js_get user ''refreshToken'' = Inr refreshToken \<and> truthy refreshToken)
   \<and> js_get (demo_session JUndefined) ''refreshToken'' = Inr JUndefined
   \<and> frameHandler demo (passport_invokes JNull (demo_session JUndefined))
       (request_with [(''demo-nonce'', JStr ''bm9uY2U='')] [(''state'', JStr ''bm9uY2U='')] [])
       fresh =
      Done \<lparr>statusCode = 200, setCookies = [],
            sent = Some (PostMessage
              \<lparr>type = ''auth-result'', payload = None,
               error = Some (JError ''Missing refresh token'')\<rparr>),
            trace = [CookieRead ''demo-nonce'', PassportAuthenticateCallback ''google'']\<rparr>"
proof -
  let ?req = "request_with [(''demo-nonce'', JStr ''bm9uY2U='')] [(''state'', JStr ''bm9uY2U='')] []"
  have h1: "truthy (req_cookie ?req (provider demo @ ''-nonce''))"
    by (simp add: req_cookie_def request_with_def demo_def)
  have h2: "strict_eq (req_cookie ?req (provider demo @ ''-nonce'')) (req_query ?req ''state'')"
    by (simp add: req_cookie_def req_query_def request_with_def demo_def)
  have set: "setCookies (final (frameHandler demo
       (passport_invokes JNull (demo_session (JStr ''rt2''))) ?req fresh)) \<noteq> setCookies fresh"
    using h1 h2
    by (simp add: frameHandler_exchange passport_invokes_def callback_success [where refreshToken = "JStr ''rt2''"]
          demo_session_def fresh_def)
  have h5: "js_get (demo_session JUndefined) ''refreshToken'' = Inr JUndefined"
    by (simp add: demo_session_def)
  have hyp: "truthy (req_cookie ?req (provider demo @ ''-nonce'')) \<and>
    strict_eq (req_cookie ?req (provider demo @ ''-nonce'')) (req_query ?req ''state'') \<and>
    passport_invokes JNull (demo_session JUndefined) ?req = Some (JNull, demo_session JUndefined) \<and>
    \<not> truthy JNull \<and>
    js_get (demo_session JUndefined) ''refreshToken'' = Inr JUndefined \<and> \<not> truthy JUndefined"
    using h1 h2 h5 by (simp add: passport_invokes_def)
  from refresh_cookie_only_with_refreshToken
         [where cfg = demo and req = ?req and s = fresh
            and authenticate = "passport_invokes JNull (demo_session (JStr ''rt2''))"]
       set
  have first: "\<exists>err user refreshToken.
        passport_invokes JNull (demo_session (JStr ''rt2'')) ?req = Some (err, user) \<and>
        \<not> truthy err \<and> js_get user ''refreshToken'' = Inr refreshToken \<and> truthy refreshToken"
    by blast
  from refresh_cookie_only_with_refreshToken
         [where cfg = demo and req = ?req and s = fresh
            and authenticate = "passport_invokes JNull (demo_session JUndefined)"
            and err = JNull and user = "demo_session JUndefined"
            and refreshToken = JUndefined]
       hyp
  have second: "frameHandler demo (passport_invokes JNull (demo_session JUndefined)) ?req fresh =
      Done (fresh\<lparr>sent := Some (PostMessage
                 \<lparr>type = ''auth-result'', payload = None,
                  error = Some (JError ''Missing refresh token'')\<rparr>),
               trace := trace fresh @
                 [CookieRead (provider demo @ ''-nonce''),
                  PassportAuthenticateCallback ''google'']\<rparr>)"
    by blast
  from set first h5 second show ?thesis
    by (simp add: demo_def fresh_def)
qed

text \<open>
  C3, as amended. \<^verbatim>\<open>frameHandler\<close> tests the nonce cookie and the \<^verbatim>\<open>state\<close>
  parameter for falsiness: when either is absent or empty (falsy) the response is 401
  \<open>Missing nonce\<close>; when both are truthy and not strictly equal it is 401
  \<open>Invalid nonce\<close>. In both cases the trace holds the read of the nonce cookie only
  (passport is not invoked) and no cookie is set.
\<close>

theorem callback_nonce_check:
  "(\<not> truthy (req_cookie req (provider cfg @ ''-nonce'')) \<or>
    \<not> truthy (req_query req ''state'') \<longrightarrow>
      frameHandler cfg authenticate req s =
        Done (s\<lparr>statusCode := 401, sent := Some (Text ''Missing nonce''),
               trace := trace s @ [CookieRead (provider cfg @ ''-nonce'')]\<rparr>))
   \<and>
   (truthy (req_cookie req (provider cfg @ ''-nonce'')) \<and> truthy (req_query req ''state'') \<and>
    \<not> strict_eq (req_cookie req (provider cfg @ ''-nonce'')) (req_query req ''state'') \<longrightarrow>
      frameHandler cfg authenticate req s =
        Done (s\<lparr>statusCode := 401, sent := Some (Text ''Invalid nonce''),
               trace := trace s @ [CookieRead (provider cfg @ ''-nonce'')]\<rparr>))
   \<and>
   (\<not> truthy (req_cookie req (provider cfg @ ''-nonce'')) \<or>
    \<not> truthy (req_query req ''state'') \<or>
    \<not> strict_eq (req_cookie req (provider cfg @ ''-nonce'')) (req_query req ''state'') \<longrightarrow>
      statusCode (final (frameHandler cfg authenticate req s)) = 401 \<and>
      trace (final (frameHandler cfg authenticate req s)) =
        trace s @ [CookieRead (provider cfg @ ''-nonce'')] \<and>
      setCookies (final (frameHandler cfg authenticate req s)) = setCookies s)"
proof (intro conjI impI)
  assume "\<not> truthy (req_cookie req (provider cfg @ ''-nonce'')) \<or>
    \<not> truthy (req_query req ''state'')"
  then show "frameHandler cfg authenticate req s =
        Done (s\<lparr>statusCode := 401, sent := Some (Text ''Missing nonce''),
               trace := trace s @ [CookieRead (provider cfg @ ''-nonce'')]\<rparr>)"
    by (rule frameHandler_missing)
next
  assume "truthy (req_cookie req (provider cfg @ ''-nonce'')) \<and>
    truthy (req_query req ''state'') \<and>
    \<not> strict_eq (req_cookie req (provider cfg @ ''-nonce'')) (req_query req ''state'')"
  then show "frameHandler cfg authenticate req s =
        Done (s\<lparr>statusCode := 401, sent := Some (Text ''Invalid nonce''),
               trace := trace s @ [CookieRead (provider cfg @ ''-nonce'')]\<rparr>)"
    by (simp add: frameHandler_invalid)
next
  assume a: "\<not> truthy (req_cookie req (provider cfg @ ''-nonce'')) \<or>
    \<not> truthy (req_query req ''state'') \<or>
    \<not> strict_eq (req_cookie req (provider cfg @ ''-nonce'')) (req_query req ''state'')"
  show "statusCode (final (frameHandler cfg authenticate req s)) = 401"
    using a by (cases "\<not> truthy (req_cookie req (provider cfg @ ''-nonce'')) \<or>
        \<not> truthy (req_query req ''state'')")
      (auto simp add: frameHandler_missing frameHandler_invalid)
  show "trace (final (frameHandler cfg authenticate req s)) =
        trace s @ [CookieRead (provider cfg @ ''-nonce'')]"
    using a by (cases "\<not> truthy (req_cookie req (provider cfg @ ''-nonce'')) \<or>
        \<not> truthy (req_query req ''state'')")
      (auto simp add: frameHandler_missing frameHandler_invalid)
  show "setCookies (final (frameHandler cfg authenticate req s)) = setCookies s"
    using a by (cases "\<not> truthy (req_cookie req (provider cfg @ ''-nonce'')) \<or>
        \<not> truthy (req_query req ''state'')")
      (auto simp add: frameHandler_missing frameHandler_invalid)
qed

text \<open>
  Witness of C3 as amended: a request without the nonce cookie is answered
  \<open>Missing nonce\<close>, a request whose cookie \<open>abc\<close> differs from its state \<open>abd\<close>
  is answered \<open>Invalid nonce\<close>, though the exchange would have succeeded.
\<close>

theorem callback_nonce_check_witness:
  "cookies (request_with [] [(''state'', JStr ''abc'')] []) ''demo-nonce'' = None
   \<and> frameHandler demo (passport_invokes JNull (demo_session (JStr ''rt1'')))
        (request_with [] [(''state'', JStr ''abc'')] []) fresh =
      Done \<lparr>statusCode = 401, setCookies = [], sent = Some (Text ''Missing nonce''),
            trace = [CookieRead ''demo-nonce'']\<rparr>
   \<and> \<not> strict_eq (JStr ''abc'') (JStr ''abd'')
   \<and> frameHandler demo (passport_invokes JNull (demo_session (JStr ''rt1'')))
        (request_with [(''demo-nonce'', JStr ''abc'')] [(''state'', JStr ''abd'')] []) fresh =
      Done \<lparr>statusCode = 401, setCookies = [], sent = Some (Text ''Invalid nonce''),
            trace = [CookieRead ''demo-nonce'']\<rparr>
   \<and> setCookies (final (frameHandler demo (passport_invokes JNull (demo_session (JStr ''rt1'')))
        (request_with [(''demo-nonce'', JStr ''abc'')] [(''state'', JStr ''abd'')] []) fresh)) = []"
proof -
  let ?au = "passport_invokes JNull (demo_session (JStr ''rt1''))"
  let ?r1 = "request_with [] [(''state'', JStr ''abc'')] []"
  let ?r2 = "request_with [(''demo-nonce'', JStr ''abc'')] [(''state'', JStr ''abd'')] []"
  have absent: "cookies ?r1 ''demo-nonce'' = None"
    by (simp add: request_with_def)
  have h1: "\<not> truthy (req_cookie ?r1 (provider demo @ ''-nonce'')) \<or>
      \<not> truthy (req_query ?r1 ''state'')"
    by (simp add: req_cookie_def request_with_def demo_def)
  have h2: "truthy (req_cookie ?r2 (provider demo @ ''-nonce'')) \<and>
      truthy (req_query ?r2 ''state'') \<and>
      \<not> strict_eq (req_cookie ?r2 (provider demo @ ''-nonce'')) (req_query ?r2 ''state'')"
    by (simp add: req_cookie_def req_query_def request_with_def demo_def)
  note t1 = callback_nonce_check [where cfg = demo and req = ?r1 and authenticate = ?au and s = fresh]
  note t2 = callback_nonce_check [where cfg = demo and req = ?r2 and authenticate = ?au and s = fresh]
  from t1 h1 have a: "frameHandler demo ?au ?r1 fresh =
        Done (fresh\<lparr>statusCode := 401, sent := Some (Text ''Missing nonce''),
               trace := trace fresh @ [CookieRead (provider demo @ ''-nonce'')]\<rparr>)"
    by blast
  from t2 h2 have b: "frameHandler demo ?au ?r2 fresh =
        Done (fresh\<lparr>statusCode := 401, sent := Some (Text ''Invalid nonce''),
               trace := trace fresh @ [CookieRead (provider demo @ ''-nonce'')]\<rparr>)"
    by blast
  from t2 h2 have c: "setCookies (final (frameHandler demo ?au ?r2 fresh)) = setCookies fresh"
    by blast
  from absent a b c show ?thesis
    by (simp add: demo_def fresh_def)
qed

text \<open>
  Counterexample to C3 as stated: the nonce cookie is present with the empty string as
  its value, the state parameter is present and is \<open>abc\<close>, the two are unequal, and
  the response is \<open>Missing nonce\<close>, not \<open>Invalid nonce\<close>.
\<close>

theorem callback_empty_cookie_counterexample:
  "cookies (request_with [(''demo-nonce'', JStr [])] [(''state'', JStr ''abc'')] [])
      ''demo-nonce'' = Some (JStr [])
   \<and> query (request_with [(''demo-nonce'', JStr [])] [(''state'', JStr ''abc'')] [])
      ''state'' = Some (JStr ''abc'')
   \<and> JStr [] \<noteq> JStr ''abc''
   \<and> frameHandler demo (passport_invokes JNull (demo_session (JStr ''rt1'')))
        (request_with [(''demo-nonce'', JStr [])] [(''state'', JStr ''abc'')] []) fresh =
      Done \<lparr>statusCode = 401, setCookies = [], sent = Some (Text ''Missing nonce''),
            trace = [CookieRead ''demo-nonce'']\<rparr>
   \<and> Text ''Missing nonce'' \<noteq> Text ''Invalid nonce''"
  by (simp add: frameHandler_def exchange_ops req_cookie_def req_query_def request_with_def
        demo_def fresh_def)

text \<open>
  C10. A nonce cookie or a state parameter that is present with the empty string as its
  value is treated as a missing one: the response is 401 \<open>Missing nonce\<close>, never
  \<open>Invalid nonce\<close>.
\<close>

theorem empty_nonce_is_missing:
  assumes "cookies req (provider cfg @ ''-nonce'') = Some (JStr []) \<or>
           query req ''state'' = Some (JStr [])"
  shows "frameHandler cfg authenticate req s =
      Done (s\<lparr>statusCode := 401, sent := Some (Text ''Missing nonce''),
             trace := trace s @ [CookieRead (provider cfg @ ''-nonce'')]\<rparr>)
    \<and> sent (final (frameHandler cfg authenticate req s)) \<noteq> Some (Text ''Invalid nonce'')"
proof -
  from assms have "\<not> truthy (req_cookie req (provider cfg @ ''-nonce'')) \<or>
      \<not> truthy (req_query req ''state'')"
    by (auto simp add: req_cookie_def req_query_def)
  then show ?thesis
    by (simp add: frameHandler_missing)
qed

text \<open>Witness of C10: the cookie is \<open>abc\<close> and the state parameter is the empty string.\<close>

theorem empty_nonce_is_missing_witness:
  "query (request_with [(''demo-nonce'', JStr ''abc'')] [(''state'', JStr [])] []) ''state''
     = Some (JStr [])
   \<and> frameHandler demo (passport_invokes JNull (demo_session (JStr ''rt1'')))
        (request_with [(''demo-nonce'', JStr ''abc'')] [(''state'', JStr [])] []) fresh =
      Done \<lparr>statusCode = 401, setCookies = [], sent = Some (Text ''Missing nonce''),
            trace = [CookieRead ''demo-nonce'']\<rparr>"
proof -
  let ?req = "request_with [(''demo-nonce'', JStr ''abc'')] [(''state'', JStr [])] []"
  have q: "query ?req ''state'' = Some (JStr [])"
    by (simp add: request_with_def)
  then have h: "cookies ?req (provider demo @ ''-nonce'') = Some (JStr []) \<or>
      query ?req ''state'' = Some (JStr [])"
    by simp
  from empty_nonce_is_missing
         [where cfg = demo and req = ?req and s = fresh
            and authenticate = "passport_invokes JNull (demo_session (JStr ''rt1''))", OF h] q
  show ?thesis
    by (simp add: demo_def fresh_def)
qed

subsection \<open>Refresh and logout\<close>

text \<open>
  C4. When \<^verbatim>\<open>ensuresXRequestedWith\<close> rejects the request (the header is absent or
  wrong), \<^verbatim>\<open>refresh\<close> and \<^verbatim>\<open>logout\<close> answer 401
  \<open>Invalid X-Requested-With header\<close> and do nothing else: the trace is unchanged, so
  no cookie was read and no collaborator was called, and no cookie is set.
\<close>

theorem csrf_header_checked_first:
  assumes "\<not> ensures req"
  shows "refresh cfg ensures client req s =
      Done (s\<lparr>statusCode := 401, sent := Some (Text ''Invalid X-Requested-With header'')\<rparr>)
    \<and> logout cfg ensures req s =
      Done (s\<lparr>statusCode := 401, sent := Some (Text ''Invalid X-Requested-With header'')\<rparr>)
    \<and> trace (final (refresh cfg ensures client req s)) = trace s
    \<and> setCookies (final (refresh cfg ensures client req s)) = setCookies s
    \<and> trace (final (logout cfg ensures req s)) = trace s
    \<and> setCookies (final (logout cfg ensures req s)) = setCookies s"
  using assms by (simp add: refresh_rejected logout_rejected)

text \<open>
  Witness of C4: a request that carries a refresh-token cookie and no
  \<^verbatim>\<open>X-Requested-With\<close> header, and one whose header has another value than the
  expected \<open>XMLHttpRequest\<close>.
\<close>

theorem csrf_header_checked_first_witness:
  "\<not> ensuresXRequestedWith ''XMLHttpRequest''
        (request_with [(''demo-refresh-token'', JStr ''rt1'')] [] [])
   \<and> refresh demo (ensuresXRequestedWith ''XMLHttpRequest'')
        (client_invokes JNull (JStr ''at2'') JUndefined (JObj []))
        (request_with [(''demo-refresh-token'', JStr ''rt1'')] [] []) fresh =
      Done \<lparr>statusCode = 401, setCookies = [],
            sent = Some (Text ''Invalid X-Requested-With header''), trace = []\<rparr>
   \<and> \<not> ensuresXRequestedWith ''XMLHttpRequest''
        (request_with [(''demo-refresh-token'', JStr ''rt1'')] []
           [(''X-Requested-With'', ''fetch'')])
   \<and> logout demo (ensuresXRequestedWith ''XMLHttpRequest'')
        (request_with [(''demo-refresh-token'', JStr ''rt1'')] []
           [(''X-Requested-With'', ''fetch'')]) fresh =
      Done \<lparr>statusCode = 401, setCookies = [],
            sent = Some (Text ''Invalid X-Requested-With header''), trace = []\<rparr>"
proof -
  let ?r1 = "request_with [(''demo-refresh-token'', JStr ''rt1'')] [] []"
  let ?r2 = "request_with [(''demo-refresh-token'', JStr ''rt1'')] []
               [(''X-Requested-With'', ''fetch'')]"
  have h1: "\<not> ensuresXRequestedWith ''XMLHttpRequest'' ?r1"
    by (simp add: ensuresXRequestedWith_def request_with_def)
  have h2: "\<not> ensuresXRequestedWith ''XMLHttpRequest'' ?r2"
    by (simp add: ensuresXRequestedWith_def request_with_def)
  from csrf_header_checked_first
         [where ensures = "ensuresXRequestedWith ''XMLHttpRequest''" and req = ?r1
            and cfg = demo and s = fresh
            and client = "client_invokes JNull (JStr ''at2'') JUndefined (JObj [])", OF h1]
       csrf_header_checked_first
         [where ensures = "ensuresXRequestedWith ''XMLHttpRequest''" and req = ?r2
            and cfg = demo and s = fresh
            and client = "client_invokes JNull (JStr ''at2'') JUndefined (JObj [])", OF h2]
       h1 h2
  show ?thesis
    by (simp add: fresh_def)
qed

text \<open>
  C7. When the header check passes and the request has no refresh-token cookie (it
  reads as \<^verbatim>\<open>undefined\<close>, or as any falsy value), \<^verbatim>\<open>refresh\<close> answers 401
  \<open>Missing session cookie\<close>; the trace holds the read of the cookie only, so the
  refresh grant is not requested.
\<close>

theorem refresh_missing_session_cookie:
  assumes "ensures req"
      and "\<not> truthy (req_cookie req (provider cfg @ ''-refresh-token''))"
  shows "refresh cfg ensures client req s =
      Done (s\<lparr>statusCode := 401, sent := Some (Text ''Missing session cookie''),
             trace := trace s @ [CookieRead (provider cfg @ ''-refresh-token'')]\<rparr>)"
  using assms by (rule refresh_no_cookie)

text \<open>Witness of C7: the header is the expected one and the request has no cookie.\<close>

theorem refresh_missing_session_cookie_witness:
  "ensuresXRequestedWith ''XMLHttpRequest''
      (request_with [] [] [(''X-Requested-With'', ''XMLHttpRequest'')])
   \<and> cookies (request_with [] [] [(''X-Requested-With'', ''XMLHttpRequest'')])
        ''demo-refresh-token'' = None
   \<and> refresh demo (ensuresXRequestedWith ''XMLHttpRequest'')
        (client_invokes JNull (JStr ''at2'') JUndefined (JObj []))
        (request_with [] [] [(''X-Requested-With'', ''XMLHttpRequest'')]) fresh =
      Done \<lparr>statusCode = 401, setCookies = [], sent = Some (Text ''Missing session cookie''),
            trace = [CookieRead ''demo-refresh-token'']\<rparr>"
proof -
  let ?req = "request_with [] [] [(''X-Requested-With'', ''XMLHttpRequest'')]"
  have h1: "ensuresXRequestedWith ''XMLHttpRequest'' ?req"
    by (simp add: ensuresXRequestedWith_def request_with_def)
  have absent: "cookies ?req ''demo-refresh-token'' = None"
    by (simp add: request_with_def)
  have h2: "\<not> truthy (req_cookie ?req (provider demo @ ''-refresh-token''))"
    by (simp add: req_cookie_def request_with_def)
  from refresh_missing_session_cookie
         [where ensures = "ensuresXRequestedWith ''XMLHttpRequest''" and req = ?req
            and cfg = demo and s = fresh
            and client = "client_invokes JNull (JStr ''at2'') JUndefined (JObj [])", OF h1 h2]
       h1 absent
  show ?thesis
    by (simp add: demo_def fresh_def)
qed

text \<open>
  C8. When \<^verbatim>\<open>refresh\<close> reaches the refresh grant (the header check passes and the
  refresh-token cookie is truthy) and the client invokes the callback with
  \<open>(err, accessToken, newRefreshToken, params)\<close>: if \<open>err\<close> is truthy or
  \<open>accessToken\<close> is falsy the response is 401 \<open>Failed to refresh access token\<close>;
  otherwise, \<open>params\<close> being a value whose properties can be read, the status is left
  as it was (200) and the body is the object with exactly the fields \<open>accessToken\<close>,
  \<open>idToken\<close>, \<open>expiresInSeconds\<close> and \<open>scope\<close>, taken from \<open>accessToken\<close> and
  \<open>params\<close>: neither the cookie's refresh token nor \<open>newRefreshToken\<close> is in it.
\<close>

theorem refresh_grant_outcome:
  assumes "ensures req"
      and "truthy (req_cookie req (provider cfg @ ''-refresh-token''))"
      and "client (provider cfg) (req_cookie req (provider cfg @ ''-refresh-token''))
             (if scope_of req \<noteq> [] then JObj [(''scope'', JStr (scope_of req))] else JObj [])
           = (err, accessToken, newRefreshToken, params)"
      and "statusCode s = 200"
  shows "(truthy err \<or> \<not> truthy accessToken \<longrightarrow>
            refresh cfg ensures client req s =
              Done (s\<lparr>statusCode := 401,
                sent := Some (Text ''Failed to refresh access token''),
                trace := trace s @
                  [CookieRead (provider cfg @ ''-refresh-token''),
                   RequestNewAccessToken (provider cfg)
                     (req_cookie req (provider cfg @ ''-refresh-token''))
                     (if scope_of req \<noteq> [] then JObj [(''scope'', JStr (scope_of req))]
                      else JObj [])]\<rparr>))
       \<and> (\<not> truthy err \<and> truthy accessToken \<and>
           js_get params ''id_token'' = Inr id_token \<and>
           js_get params ''expires_in'' = Inr expires_in \<and>
           js_get params ''scope'' = Inr params_scope \<longrightarrow>
            refresh cfg ensures client req s =
              Done (s\<lparr>sent := Some (Json (JObj
                  [(''accessToken'', accessToken), (''idToken'', id_token),
                   (''expiresInSeconds'', expires_in), (''scope'', params_scope)])),
                trace := trace s @
                  [CookieRead (provider cfg @ ''-refresh-token''),
                   RequestNewAccessToken (provider cfg)
                     (req_cookie req (provider cfg @ ''-refresh-token''))
                     (if scope_of req \<noteq> [] then JObj [(''scope'', JStr (scope_of req))]
                      else JObj [])]\<rparr>) \<and>
            statusCode (final (refresh cfg ensures client req s)) = 200 \<and>
            setCookies (final (refresh cfg ensures client req s)) = setCookies s)"
proof -
  note grant = refresh_grant
    [where ensures = ensures and client = client and req = req and cfg = cfg and s = s,
     OF assms(1-3)]
  show ?thesis
  proof (intro conjI impI)
    assume "truthy err \<or> \<not> truthy accessToken"
    then show "refresh cfg ensures client req s =
              Done (s\<lparr>statusCode := 401,
                sent := Some (Text ''Failed to refresh access token''),
                trace := trace s @
                  [CookieRead (provider cfg @ ''-refresh-token''),
                   RequestNewAccessToken (provider cfg)
                     (req_cookie req (provider cfg @ ''-refresh-token''))
                     (if scope_of req \<noteq> [] then JObj [(''scope'', JStr (scope_of req))]
                      else JObj [])]\<rparr>)"
      by (simp add: grant refresh_callback_failed)
  next
    assume ok: "\<not> truthy err \<and> truthy accessToken \<and>
           js_get params ''id_token'' = Inr id_token \<and>
           js_get params ''expires_in'' = Inr expires_in \<and>
           js_get params ''scope'' = Inr params_scope"
    then have body: "refresh cfg ensures client req s =
              Done (s\<lparr>sent := Some (Json (JObj
                  [(''accessToken'', accessToken), (''idToken'', id_token),
                   (''expiresInSeconds'', expires_in), (''scope'', params_scope)])),
                trace := trace s @
                  [CookieRead (provider cfg @ ''-refresh-token''),
                   RequestNewAccessToken (provider cfg)
                     (req_cookie req (provider cfg @ ''-refresh-token''))
                     (if scope_of req \<noteq> [] then JObj [(''scope'', JStr (scope_of req))]
                      else JObj [])]\<rparr>)"
      by (simp add: grant refresh_callback_ok)
    then show "refresh cfg ensures client req s =
              Done (s\<lparr>sent := Some (Json (JObj
                  [(''accessToken'', accessToken), (''idToken'', id_token),
                   (''expiresInSeconds'', expires_in), (''scope'', params_scope)])),
                trace := trace s @
                  [CookieRead (provider cfg @ ''-refresh-token''),
                   RequestNewAccessToken (provider cfg)
                     (req_cookie req (provider cfg @ ''-refresh-token''))
                     (if scope_of req \<noteq> [] then JObj [(''scope'', JStr (scope_of req))]
                      else JObj [])]\<rparr>)" .
    from body assms(4) show "statusCode (final (refresh cfg ensures client req s)) = 200"
      by simp
    from body show "setCookies (final (refresh cfg ensures client req s)) = setCookies s"
      by simp
  qed
qed

text \<open>
  Witness of C8: with the cookie \<open>rt1\<close>, a client that answers with the error
  \<open>invalid_grant\<close> gives the 401, and a client that answers with the access token
  \<open>at2\<close> (and a rotated refresh token \<open>rt9\<close>, which is dropped) gives the body of
  four fields.
\<close>

theorem refresh_grant_outcome_witness:
  "ensuresXRequestedWith ''XMLHttpRequest''
      (request_with [(''demo-refresh-token'', JStr ''rt1'')] []
         [(''X-Requested-With'', ''XMLHttpRequest'')])
   \<and> truthy (JError ''invalid_grant'')
   \<and> refresh demo (ensuresXRequestedWith ''XMLHttpRequest'')
        (client_invokes (JError ''invalid_grant'') JUndefined JUndefined JUndefined)
        (request_with [(''demo-refresh-token'', JStr ''rt1'')] []
           [(''X-Requested-With'', ''XMLHttpRequest'')]) fresh =
      Done \<lparr>statusCode = 401, setCookies = [],
            sent = Some (Text ''Failed to refresh access token''),
            trace = [CookieRead ''demo-refresh-token'',
                     RequestNewAccessToken ''demo'' (JStr ''rt1'') (JObj [])]\<rparr>
   \<and> refresh demo (ensuresXRequestedWith ''XMLHttpRequest'')
        (client_invokes JNull (JStr ''at2'') (JStr ''rt9'')
           (JObj [(''access_token'', JStr ''at2''), (''refresh_token'', JStr ''rt9''),
                  (''id_token'', JStr ''id2''), (''expires_in'', JNum 3599),
                  (''scope'', JStr ''openid'')]))
        (request_with [(''demo-refresh-token'', JStr ''rt1'')] []
           [(''X-Requested-With'', ''XMLHttpRequest'')]) fresh =
      Done \<lparr>statusCode = 200, setCookies = [],
            sent = Some (Json (JObj
              [(''accessToken'', JStr ''at2''), (''idToken'', JStr ''id2''),
               (''expiresInSeconds'', JNum 3599), (''scope'', JStr ''openid'')])),
            trace = [CookieRead ''demo-refresh-token'',
                     RequestNewAccessToken ''demo'' (JStr ''rt1'') (JObj [])]\<rparr>"
proof -
  let ?ens = "ensuresXRequestedWith ''XMLHttpRequest''"
  let ?req = "request_with [(''demo-refresh-token'', JStr ''rt1'')] []
                [(''X-Requested-With'', ''XMLHttpRequest'')]"
  let ?params = "JObj [(''access_token'', JStr ''at2''), (''refresh_token'', JStr ''rt9''),
                  (''id_token'', JStr ''id2''), (''expires_in'', JNum 3599),
                  (''scope'', JStr ''openid'')]"
  let ?bad = "client_invokes (JError ''invalid_grant'') JUndefined JUndefined JUndefined"
  let ?good = "client_invokes JNull (JStr ''at2'') (JStr ''rt9'') ?params"
  have h1: "?ens ?req"
    by (simp add: ensuresXRequestedWith_def request_with_def)
  have h2: "truthy (req_cookie ?req (provider demo @ ''-refresh-token''))"
    by (simp add: req_cookie_def request_with_def demo_def)
  have sc: "scope_of ?req = []"
    by (simp add: scope_of_def req_query_def request_with_def)
  have h3: "?bad (provider demo) (req_cookie ?req (provider demo @ ''-refresh-token''))
             (if scope_of ?req \<noteq> [] then JObj [(''scope'', JStr (scope_of ?req))] else JObj [])
           = (JError ''invalid_grant'', JUndefined, JUndefined, JUndefined)"
    by (simp add: client_invokes_def)
  have h3': "?good (provider demo) (req_cookie ?req (provider demo @ ''-refresh-token''))
             (if scope_of ?req \<noteq> [] then JObj [(''scope'', JStr (scope_of ?req))] else JObj [])
           = (JNull, JStr ''at2'', JStr ''rt9'', ?params)"
    by (simp add: client_invokes_def)
  have h4: "statusCode fresh = 200"
    by (simp add: fresh_def)
  have e: "truthy (JError ''invalid_grant'')"
    by simp
  have p: "\<not> truthy JNull \<and> truthy (JStr ''at2'') \<and>
           js_get ?params ''id_token'' = Inr (JStr ''id2'') \<and>
           js_get ?params ''expires_in'' = Inr (JNum 3599) \<and>
           js_get ?params ''scope'' = Inr (JStr ''openid'')"
    by simp
  from refresh_grant_outcome
         [where ensures = ?ens and req = ?req and cfg = demo and s = fresh and client = ?bad,
          OF h1 h2 h3 h4] e
  have a: "refresh demo ?ens ?bad ?req fresh =
      Done (fresh\<lparr>statusCode := 401,
        sent := Some (Text ''Failed to refresh access token''),
        trace := trace fresh @
          [CookieRead (provider demo @ ''-refresh-token''),
           RequestNewAccessToken (provider demo)
             (req_cookie ?req (provider demo @ ''-refresh-token''))
             (if scope_of ?req \<noteq> [] then JObj [(''scope'', JStr (scope_of ?req))]
              else JObj [])]\<rparr>)"
    by blast
  from refresh_grant_outcome
         [where ensures = ?ens and req = ?req and cfg = demo and s = fresh and client = ?good
            and id_token = "JStr ''id2''" and expires_in = "JNum 3599"
            and params_scope = "JStr ''openid''",
          OF h1 h2 h3' h4] p
  have b: "refresh demo ?ens ?good ?req fresh =
      Done (fresh\<lparr>sent := Some (Json (JObj
          [(''accessToken'', JStr ''at2''), (''idToken'', JStr ''id2''),
           (''expiresInSeconds'', JNum 3599), (''scope'', JStr ''openid'')])),
        trace := trace fresh @
          [CookieRead (provider demo @ ''-refresh-token''),
           RequestNewAccessToken (provider demo)
             (req_cookie ?req (provider demo @ ''-refresh-token''))
             (if scope_of ?req \<noteq> [] then JObj [(''scope'', JStr (scope_of ?req))]
              else JObj [])]\<rparr>)"
    by blast
  have c: "req_cookie ?req ''demo-refresh-token'' = JStr ''rt1''"
    by (simp add: req_cookie_def request_with_def)
  from h1 e a b show ?thesis
    by (simp add: c sc demo_def fresh_def)
qed

subsection \<open>Start\<close>

text \<open>
  C5, at the request without a \<^verbatim>\<open>scope\<close> parameter. \<^verbatim>\<open>start\<close> throws
  \<^verbatim>\<open>InputError('missing scope parameter')\<close> and does not call passport, but the
  state it leaves has the nonce cookie set: \<^verbatim>\<open>res.cookie\<close> runs before the scope is
  checked.
\<close>

theorem start_missing_scope_sets_nonce_cookie:
  "scope_of (request_with [] [] []) = []
   \<and> start demo counting_entropy (request_with [] [] []) fresh =
      Thrown (InputError ''missing scope parameter'')
        \<lparr>statusCode = 200,
         setCookies = [(''demo-nonce'', JStr ''AAECAwQFBgcICQoLDA0ODw=='',
           \<lparr>maxAge = 600000, secure = False, sameSite = ''none'', domain = ''localhost'',
            path = ''/auth/demo/handler'', httpOnly = True\<rparr>)],
         sent = None,
         trace = [RandomBytes 16]\<rparr>"
proof -
  have sc: "scope_of (request_with [] [] []) = []"
    by (simp add: scope_of_def req_query_def request_with_def)
  from start_throws [OF sc, of demo counting_entropy fresh] sc show ?thesis
    by (simp add: counting_nonce demo_def fresh_def)
qed

text \<open>
  C6. With a non-empty scope, \<^verbatim>\<open>start\<close> sets the nonce cookie and calls
  \<^verbatim>\<open>passport.authenticate\<close> with the same nonce as \<^verbatim>\<open>state\<close>; the nonce is the
  base64 encoding (24 characters) of the 16 bytes taken from the entropy source.
\<close>

theorem start_nonce_cookie_is_state:
  assumes "scope_of req \<noteq> []"
  shows "start cfg entropy req s =
      Done (s\<lparr>setCookies := setCookies s @
             [(provider cfg @ ''-nonce'', JStr (toString_base64 (randomBytes entropy 16)),
               \<lparr>maxAge = 600000, secure = False, sameSite = ''none'', domain = ''localhost'',
                path = ''/auth/'' @ provider cfg @ ''/handler'', httpOnly = True\<rparr>)],
           trace := trace s @
             [RandomBytes 16,
              PassportAuthenticate ''google''
                \<lparr>scope = scope_of req, accessType = ''offline'', prompt = ''consent'',
                 state = toString_base64 (randomBytes entropy 16)\<rparr>]\<rparr>)
    \<and> length (randomBytes entropy 16) = 16
    \<and> (\<forall>i<16. randomBytes entropy 16 ! i = entropy i)
    \<and> length (toString_base64 (randomBytes entropy 16)) = 24"
  using assms by (simp add: start_done length_randomBytes nth_randomBytes length_nonce)

text \<open>
  Witness of C6: the scope \<open>openid profile\<close> and the entropy source that counts; the
  nonce is the encoding of the bytes 0 to 15.
\<close>

theorem start_nonce_cookie_is_state_witness:
  "scope_of (request_with [] [(''scope'', JStr ''openid profile'')] []) = ''openid profile''
   \<and> start demo counting_entropy
        (request_with [] [(''scope'', JStr ''openid profile'')] []) fresh =
      Done \<lparr>statusCode = 200,
            setCookies = [(''demo-nonce'', JStr ''AAECAwQFBgcICQoLDA0ODw=='',
              \<lparr>maxAge = 600000, secure = False, sameSite = ''none'', domain = ''localhost'',
               path = ''/auth/demo/handler'', httpOnly = True\<rparr>)],
            sent = None,
            trace = [RandomBytes 16,
                     PassportAuthenticate ''google''
                       \<lparr>scope = ''openid profile'', accessType = ''offline'',
                        prompt = ''consent'', state = ''AAECAwQFBgcICQoLDA0ODw==''\<rparr>]\<rparr>"
proof -
  let ?req = "request_with [] [(''scope'', JStr ''openid profile'')] []"
  have sc: "scope_of ?req = ''openid profile''"
    by (simp add: scope_of_def req_query_def request_with_def)
  then have h: "scope_of ?req \<noteq> []"
    by simp
  from start_nonce_cookie_is_state [OF h, of demo counting_entropy fresh] sc
  show ?thesis
    by (simp add: counting_nonce demo_def fresh_def)
qed

subsection \<open>Cookie attributes\<close>

text \<open>
  C9. The nonce cookie that \<^verbatim>\<open>start\<close> sets has maxAge 600000 (ten minutes in
  milliseconds) and path \<open>/auth/{provider}/handler\<close>; the refresh-token cookie that the
  callback sets on success has maxAge 86400000000 (a thousand days in milliseconds) and
  path \<open>/auth/{provider}\<close>; the cookie that \<^verbatim>\<open>logout\<close> sets has the empty string as
  its value, maxAge 0 and the same path; the three are httpOnly.
\<close>

theorem cookie_attributes:
  "setCookies (final (start cfg entropy req s)) =
     setCookies s @
       [(provider cfg @ ''-nonce'', JStr (toString_base64 (randomBytes entropy 16)),
         \<lparr>maxAge = 600000, secure = False, sameSite = ''none'', domain = ''localhost'',
          path = ''/auth/'' @ provider cfg @ ''/handler'', httpOnly = True\<rparr>)]
   \<and>
   (truthy (req_cookie req (provider cfg @ ''-nonce'')) \<and>
    strict_eq (req_cookie req (provider cfg @ ''-nonce'')) (req_query req ''state'') \<and>
    authenticate req = Some (err, user) \<and> \<not> truthy err \<and>
    js_get user ''refreshToken'' = Inr refreshToken \<and> truthy refreshToken \<longrightarrow>
      setCookies (final (frameHandler cfg authenticate req s)) =
        setCookies s @
          [(provider cfg @ ''-refresh-token'', refreshToken,
            \<lparr>maxAge = 86400000000, secure = False, sameSite = ''none'', domain = ''localhost'',
             path = ''/auth/'' @ provider cfg, httpOnly = True\<rparr>)])
   \<and>
   (ensures req \<longrightarrow>
      setCookies (final (logout cfg ensures req s)) =
        setCookies s @
          [(provider cfg @ ''-refresh-token'', JStr [],
            \<lparr>maxAge = 0, secure = False, sameSite = ''none'', domain = ''localhost'',
             path = ''/auth/'' @ provider cfg, httpOnly = True\<rparr>)])
   \<and> TEN_MINUTES_MS = 10 * 60 * 1000
   \<and> THOUSAND_DAYS_MS = 1000 * (24 * 60 * 60 * 1000)
   \<and> TEN_MINUTES_MS = 600000
   \<and> THOUSAND_DAYS_MS = 86400000000"
proof (intro conjI impI)
  show "setCookies (final (start cfg entropy req s)) =
     setCookies s @
       [(provider cfg @ ''-nonce'', JStr (toString_base64 (randomBytes entropy 16)),
         \<lparr>maxAge = 600000, secure = False, sameSite = ''none'', domain = ''localhost'',
          path = ''/auth/'' @ provider cfg @ ''/handler'', httpOnly = True\<rparr>)]"
    by (cases "scope_of req = []") (simp_all add: start_throws start_done)
next
  assume a: "truthy (req_cookie req (provider cfg @ ''-nonce'')) \<and>
    strict_eq (req_cookie req (provider cfg @ ''-nonce'')) (req_query req ''state'') \<and>
    authenticate req = Some (err, user) \<and> \<not> truthy err \<and>
    js_get user ''refreshToken'' = Inr refreshToken \<and> truthy refreshToken"
  then have "frameHandler cfg authenticate req s =
      frameHandler_callback cfg err user
        (s\<lparr>trace := trace s @
            [CookieRead (provider cfg @ ''-nonce''), PassportAuthenticateCallback ''google'']\<rparr>)"
    by (simp add: frameHandler_exchange)
  with a show "setCookies (final (frameHandler cfg authenticate req s)) =
        setCookies s @
          [(provider cfg @ ''-refresh-token'', refreshToken,
            \<lparr>maxAge = 86400000000, secure = False, sameSite = ''none'', domain = ''localhost'',
             path = ''/auth/'' @ provider cfg, httpOnly = True\<rparr>)]"
    by (simp add: callback_success)
next
  assume "ensures req"
  then show "setCookies (final (logout cfg ensures req s)) =
        setCookies s @
          [(provider cfg @ ''-refresh-token'', JStr [],
            \<lparr>maxAge = 0, secure = False, sameSite = ''none'', domain = ''localhost'',
             path = ''/auth/'' @ provider cfg, httpOnly = True\<rparr>)]"
    by (simp add: logout_done)
next
  show "TEN_MINUTES_MS = 10 * 60 * 1000"
    by (simp add: TEN_MINUTES_MS_def)
  show "THOUSAND_DAYS_MS = 1000 * (24 * 60 * 60 * 1000)"
    by (simp add: THOUSAND_DAYS_MS_def)
  show "TEN_MINUTES_MS = 600000"
    by (rule ten_minutes)
  show "THOUSAND_DAYS_MS = 86400000000"
    by (rule thousand_days)
qed

text \<open>
  Witness of C9: the cookies of provider \<open>demo\<close> on a successful callback and on a
  logout with the expected header.
\<close>

theorem cookie_attributes_witness:
  "setCookies (final (frameHandler demo (passport_invokes JNull (demo_session (JStr ''rt1'')))
      (request_with [(''demo-nonce'', JStr ''bm9uY2U='')] [(''state'', JStr ''bm9uY2U='')] [])
      fresh)) =
     [(''demo-refresh-token'', JStr ''rt1'',
       \<lparr>maxAge = 86400000000, secure = False, sameSite = ''none'', domain = ''localhost'',
        path = ''/auth/demo'', httpOnly = True\<rparr>)]
   \<and> ensuresXRequestedWith ''XMLHttpRequest''
        (request_with [(''demo-refresh-token'', JStr ''rt1'')] []
           [(''X-Requested-With'', ''XMLHttpRequest'')])
   \<and> setCookies (final (logout demo (ensuresXRequestedWith ''XMLHttpRequest'')
        (request_with [(''demo-refresh-token'', JStr ''rt1'')] []
           [(''X-Requested-With'', ''XMLHttpRequest'')]) fresh)) =
     [(''demo-refresh-token'', JStr [],
       \<lparr>maxAge = 0, secure = False, sameSite = ''none'', domain = ''localhost'',
        path = ''/auth/demo'', httpOnly = True\<rparr>)]"
proof -
  let ?r1 = "request_with [(''demo-nonce'', JStr ''bm9uY2U='')] [(''state'', JStr ''bm9uY2U='')] []"
  let ?r2 = "request_with [(''demo-refresh-token'', JStr ''rt1'')] []
               [(''X-Requested-With'', ''XMLHttpRequest'')]"
  let ?au = "passport_invokes JNull (demo_session (JStr ''rt1''))"
  let ?ens = "ensuresXRequestedWith ''XMLHttpRequest''"
  have h1: "truthy (req_cookie ?r1 (provider demo @ ''-nonce'')) \<and>
    strict_eq (req_cookie ?r1 (provider demo @ ''-nonce'')) (req_query ?r1 ''state'') \<and>
    ?au ?r1 = Some (JNull, demo_session (JStr ''rt1'')) \<and> \<not> truthy JNull \<and>
    js_get (demo_session (JStr ''rt1'')) ''refreshToken'' = Inr (JStr ''rt1'') \<and>
    truthy (JStr ''rt1'')"
    by (simp add: req_cookie_def req_query_def request_with_def demo_def passport_invokes_def
          demo_session_def)
  have h2: "?ens ?r2"
    by (simp add: ensuresXRequestedWith_def request_with_def)
  from cookie_attributes
         [where cfg = demo and req = ?r1 and authenticate = ?au and err = JNull
            and user = "demo_session (JStr ''rt1'')" and refreshToken = "JStr ''rt1''"
            and s = fresh] h1
  have a: "setCookies (final (frameHandler demo ?au ?r1 fresh)) =
        setCookies fresh @
          [(provider demo @ ''-refresh-token'', JStr ''rt1'',
            \<lparr>maxAge = 86400000000, secure = False, sameSite = ''none'', domain = ''localhost'',
             path = ''/auth/'' @ provider demo, httpOnly = True\<rparr>)]"
    by blast
  from cookie_attributes [where cfg = demo and req = ?r2 and ensures = ?ens and s = fresh] h2
  have b: "setCookies (final (logout demo ?ens ?r2 fresh)) =
        setCookies fresh @
          [(provider demo @ ''-refresh-token'', JStr [],
            \<lparr>maxAge = 0, secure = False, sameSite = ''none'', domain = ''localhost'',
             path = ''/auth/'' @ provider demo, httpOnly = True\<rparr>)]"
    by blast
  from a b h2 show ?thesis
    by (simp add: demo_def fresh_def)
qed

end
